theory Spec2Isabelle
  imports Main
begin

section \<open>The Pomodoro timer of \<open>FerramentasPage\<close> (src/src/app.jsx)\<close>

text \<open>
  The component keeps four pieces of React state and three constants:
  \<^verbatim>\<open>
  const workDuration = 25 * 60; // 25 minutes
  const shortBreak = 5 * 60; // 5 minutes
  const longBreak = 15 * 60; // 15 minutes
  const [timeLeft, setTimeLeft] = useState(workDuration);
  const [phase, setPhase] = useState("work");
  const [cycle, setCycle] = useState(1);
  const [running, setRunning] = useState(false);
  \<close>
  The phase is one of the three strings \<open>"work"\<close>, \<open>"shortBreak"\<close>, \<open>"longBreak"\<close>: no
  other value is ever stored. The two counters are JavaScript numbers that only ever hold
  integers; they are modelled as mathematical integers (\<open>int\<close>), which is exact as long as
  the values stay below \<open>2^53\<close>.
\<close>

datatype phase = Work | ShortBreak | LongBreak

record session =
  timeLeft :: int
  phase :: phase
  cycle :: int
  running :: bool

definition workDuration :: int where
  "workDuration = 25 * 60"

definition shortBreak :: int where
  "shortBreak = 5 * 60"

definition longBreak :: int where
  "longBreak = 15 * 60"

text \<open>The state after the first render: the arguments of the four \<open>useState\<close> calls.\<close>

definition initial :: session where
  "initial = \<lparr>timeLeft = workDuration, phase = Work, cycle = 1, running = False\<rparr>"

text \<open>
  The remainder operator \<open>%\<close> of JavaScript truncates towards zero: the result has the sign
  of the dividend. (A zero divisor gives \<open>NaN\<close>; the component only divides by the literals
  4 and 60.)
\<close>

definition js_rem :: "int \<Rightarrow> int \<Rightarrow> int" where
  "js_rem a b = sgn a * (\<bar>a\<bar> mod \<bar>b\<bar>)"

subsection \<open>The interval callback\<close>

text \<open>
  \<^verbatim>\<open>
  useEffect(() => {
    if (!running) return;
    const interval = setInterval(() => {
      setTimeLeft((prev) => {
        if (prev > 0) return prev - 1;
        // transition between phases
        if (phase === "work") {
          setPhase(cycle % 4 === 0 ? "longBreak" : "shortBreak");
          return cycle % 4 === 0 ? longBreak : shortBreak;
        } else {
          setPhase("work");
          setCycle((c) => c + 1);
          return workDuration;
        }
      });
    }, 1000);
    return () => clearInterval(interval);
  }, [running, phase, cycle]);
  \<close>
  The effect installs the interval only while \<open>running\<close> holds and removes it when
  \<open>running\<close>, \<open>phase\<close> or \<open>cycle\<close> changes, so the callback always reads the current
  \<open>phase\<close> and \<open>cycle\<close>, and it never fires while the timer is paused. One firing of the
  callback is \<open>tick\<close>; each updater is applied once.
\<close>

definition tick :: "session \<Rightarrow> session" where
  "tick s =
     (if \<not> running s then s
      else if timeLeft s > 0 then s\<lparr>timeLeft := timeLeft s - 1\<rparr>
      else if phase s = Work then
        s\<lparr>phase := (if js_rem (cycle s) 4 = 0 then LongBreak else ShortBreak),
          timeLeft := (if js_rem (cycle s) 4 = 0 then longBreak else shortBreak)\<rparr>
      else s\<lparr>phase := Work, cycle := cycle s + 1, timeLeft := workDuration\<rparr>)"

subsection \<open>The buttons\<close>

text \<open>
  \<^verbatim>\<open>
  const start = () => setRunning(true);
  const reset = () => {
    setRunning(false);
    setPhase("work");
    setCycle(1);
    setTimeLeft(workDuration);
  };
  ...
  <button onClick={() => setRunning(false)} ...>Pausar</button>
  \<close>
\<close>

definition start :: "session \<Rightarrow> session" where
  "start s = s\<lparr>running := True\<rparr>"

definition pause :: "session \<Rightarrow> session" where
  "pause s = s\<lparr>running := False\<rparr>"

definition reset :: "session \<Rightarrow> session" where
  "reset s = s\<lparr>running := False, phase := Work, cycle := 1, timeLeft := workDuration\<rparr>"

subsection \<open>Sequences of operations\<close>

text \<open>
  The four things that can happen to the timer, and a run of them from a given state.
  \<open>ticks n\<close> is \<open>n\<close> firings of the interval callback in a row.
\<close>

datatype command = Start | Pause | Reset | Tick

fun apply_command :: "command \<Rightarrow> session \<Rightarrow> session" where
  "apply_command Start s = start s"
| "apply_command Pause s = pause s"
| "apply_command Reset s = reset s"
| "apply_command Tick s = tick s"

fun exec :: "command list \<Rightarrow> session \<Rightarrow> session" where
  "exec [] s = s"
| "exec (c # cs) s = exec cs (apply_command c s)"

primrec ticks :: "nat \<Rightarrow> session \<Rightarrow> session" where
  "ticks 0 s = s"
| "ticks (Suc n) s = ticks n (tick s)"

text \<open>
  The log of a run of \<open>n\<close> ticks: one entry for every tick that changes the phase or the
  cycle number, holding the number of that tick (counted from \<open>i + 1\<close>), the phase and cycle
  number just before it and the phase and cycle number just after it.
\<close>

fun transitions :: "nat \<Rightarrow> nat \<Rightarrow> session \<Rightarrow> (nat \<times> phase \<times> int \<times> phase \<times> int) list" where
  "transitions i 0 s = []"
| "transitions i (Suc n) s =
     (if (phase (tick s), cycle (tick s)) = (phase s, cycle s) then []
      else [(Suc i, phase s, cycle s, phase (tick s), cycle (tick s))])
     @ transitions (Suc i) n (tick s)"

text \<open>The length of each phase as the specification gives it.\<close>

fun phaseDuration :: "phase \<Rightarrow> int" where
  "phaseDuration Work = 1500"
| "phaseDuration ShortBreak = 300"
| "phaseDuration LongBreak = 900"

definition session_inv :: "session \<Rightarrow> bool" where
  "session_inv s \<longleftrightarrow>
     0 \<le> timeLeft s \<and> timeLeft s \<le> phaseDuration (phase s) \<and> 1 \<le> cycle s"

subsection \<open>The clock face\<close>

text \<open>
  \<^verbatim>\<open>
  const minutes = String(Math.floor(timeLeft / 60)).padStart(2, "0");
  const seconds = String(timeLeft % 60).padStart(2, "0");
  \<close>
  \<open>String\<close> of an integer is its decimal numeral, with a minus sign when negative.
  \<open>padStart\<close> returns the string unchanged when it is already long enough or the filler
  is empty; otherwise it puts the filler in front, repeated and cut to the missing length.
  \<open>Math.floor\<close> of the quotient is the floor division \<open>div\<close> of \<open>int\<close>.
\<close>

definition digit_char :: "nat \<Rightarrow> char" where
  "digit_char d = ''0123456789'' ! d"

fun decimal :: "nat \<Rightarrow> string" where
  "decimal n = (if n < 10 then [digit_char n] else decimal (n div 10) @ [digit_char (n mod 10)])"

definition js_String :: "int \<Rightarrow> string" where
  "js_String n = (if n < 0 then CHR ''-'' # decimal (nat (- n)) else decimal (nat n))"

definition padStart :: "nat \<Rightarrow> string \<Rightarrow> string \<Rightarrow> string" where
  "padStart targetLength fillString str =
     (if targetLength \<le> length str \<or> fillString = [] then str
      else take (targetLength - length str)
             (concat (replicate (targetLength - length str) fillString)) @ str)"

definition display :: "session \<Rightarrow> string \<times> string" where
  "display s =
     (padStart 2 ''0'' (js_String (timeLeft s div 60)),
      padStart 2 ''0'' (js_String (js_rem (timeLeft s) 60)))"

text \<open>
  What the specification asks of the clock face, in its own words: the minutes
  \<open>floor (t / 60)\<close> and the seconds \<open>t mod 60\<close>, each written with two digits, a leading
  zero filling up a single digit. \<open>digits_value\<close> reads a string of digits back as a number.
\<close>

definition two_digits :: "nat \<Rightarrow> string" where
  "two_digits n = (if n < 10 then [CHR ''0'', digit_char n] else decimal n)"

definition display_spec :: "int \<Rightarrow> string \<times> string" where
  "display_spec t = (two_digits (nat (t div 60)), two_digits (nat (t mod 60)))"

definition digit_value :: "char \<Rightarrow> nat" where
  "digit_value c = of_char c - 48"

definition digits_value :: "string \<Rightarrow> nat" where
  "digits_value str = foldl (\<lambda>a c. 10 * a + digit_value c) 0 str"

declare decimal.simps [simp del]

section \<open>Properties\<close>

subsection \<open>Arithmetic of the remainder\<close>

lemma js_rem_4_eq_0: "js_rem c 4 = 0 \<longleftrightarrow> c mod 4 = 0"
proof -
  have "\<bar>c\<bar> mod 4 = 0 \<longleftrightarrow> c mod 4 = 0"
    by presburger
  then show ?thesis
    by (auto simp: js_rem_def sgn_if)
qed

subsection \<open>One tick\<close>

text \<open>
  C1. While the timer runs, one tick with time left takes one second off and touches nothing
  else. At zero in the work phase it enters the long break with 900 seconds when the cycle
  number is a multiple of 4 and the short break with 300 seconds otherwise, the cycle number
  staying as it is. At zero in either break it enters the work phase with 1500 seconds and
  the cycle number goes up by one.
\<close>

theorem tick_running:
  assumes "running s"
  shows "(0 < timeLeft s \<longrightarrow> tick s = s\<lparr>timeLeft := timeLeft s - 1\<rparr>)
    \<and> (timeLeft s = 0 \<and> phase s = Work \<and> cycle s mod 4 = 0 \<longrightarrow>
          tick s = s\<lparr>phase := LongBreak, timeLeft := 900\<rparr>)
    \<and> (timeLeft s = 0 \<and> phase s = Work \<and> cycle s mod 4 \<noteq> 0 \<longrightarrow>
          tick s = s\<lparr>phase := ShortBreak, timeLeft := 300\<rparr>)
    \<and> (timeLeft s = 0 \<and> (phase s = ShortBreak \<or> phase s = LongBreak) \<longrightarrow>
          tick s = s\<lparr>phase := Work, timeLeft := 1500, cycle := cycle s + 1\<rparr>)"
  using assms
  by (simp add: tick_def js_rem_4_eq_0 workDuration_def shortBreak_def longBreak_def)

theorem tick_running_witness:
  "tick \<lparr>timeLeft = 65, phase = ShortBreak, cycle = 2, running = True\<rparr>
     = \<lparr>timeLeft = 64, phase = ShortBreak, cycle = 2, running = True\<rparr>
   \<and> tick \<lparr>timeLeft = 0, phase = Work, cycle = 8, running = True\<rparr>
     = \<lparr>timeLeft = 900, phase = LongBreak, cycle = 8, running = True\<rparr>
   \<and> tick \<lparr>timeLeft = 0, phase = Work, cycle = 7, running = True\<rparr>
     = \<lparr>timeLeft = 300, phase = ShortBreak, cycle = 7, running = True\<rparr>
   \<and> tick \<lparr>timeLeft = 0, phase = LongBreak, cycle = 4, running = True\<rparr>
     = \<lparr>timeLeft = 1500, phase = Work, cycle = 5, running = True\<rparr>"
  using tick_running [of "\<lparr>timeLeft = 65, phase = ShortBreak, cycle = 2, running = True\<rparr>"]
    tick_running [of "\<lparr>timeLeft = 0, phase = Work, cycle = 8, running = True\<rparr>"]
    tick_running [of "\<lparr>timeLeft = 0, phase = Work, cycle = 7, running = True\<rparr>"]
    tick_running [of "\<lparr>timeLeft = 0, phase = LongBreak, cycle = 4, running = True\<rparr>"]
  by simp

subsection \<open>Reset\<close>

text \<open>
  C3. Whatever the state was, reset gives the work phase with 1500 seconds, cycle 1,
  not running.
\<close>

theorem reset_state:
  "reset s = \<lparr>timeLeft = 1500, phase = Work, cycle = 1, running = False\<rparr>"
  by (simp add: reset_def workDuration_def)

subsection \<open>Start and pause\<close>

text \<open>
  C7. Start switches \<open>running\<close> on and pause switches it off; neither touches the phase,
  the time left or the cycle number, and doing either twice is the same as doing it once.
\<close>

theorem start_pause_frame:
  "running (start s) \<and> phase (start s) = phase s \<and> timeLeft (start s) = timeLeft s
     \<and> cycle (start s) = cycle s
   \<and> \<not> running (pause s) \<and> phase (pause s) = phase s \<and> timeLeft (pause s) = timeLeft s
     \<and> cycle (pause s) = cycle s
   \<and> start (start s) = start s \<and> pause (pause s) = pause s"
  by (simp add: start_def pause_def)

subsection \<open>A tick while paused\<close>

text \<open>
  C8. While the timer is not running a tick changes nothing: the whole state, all four
  fields, is the same before and after.
\<close>

theorem tick_paused:
  assumes "\<not> running s"
  shows "tick s = s \<and> phase (tick s) = phase s \<and> timeLeft (tick s) = timeLeft s
    \<and> cycle (tick s) = cycle s \<and> running (tick s) = running s"
  using assms by (simp add: tick_def)

theorem tick_paused_witness:
  "\<not> running \<lparr>timeLeft = 0, phase = ShortBreak, cycle = 3, running = False\<rparr>
   \<and> tick \<lparr>timeLeft = 0, phase = ShortBreak, cycle = 3, running = False\<rparr>
     = \<lparr>timeLeft = 0, phase = ShortBreak, cycle = 3, running = False\<rparr>"
  using tick_paused [of "\<lparr>timeLeft = 0, phase = ShortBreak, cycle = 3, running = False\<rparr>"]
  by simp

subsection \<open>Counting down\<close>

lemma ticks_countdown:
  "running s \<Longrightarrow> int n \<le> timeLeft s \<Longrightarrow> ticks n s = s\<lparr>timeLeft := timeLeft s - int n\<rparr>"
proof (induction n arbitrary: s)
  case 0
  then show ?case by simp
next
  case (Suc n)
  from Suc.prems have step: "tick s = s\<lparr>timeLeft := timeLeft s - 1\<rparr>"
    by (simp add: tick_def)
  have "ticks n (tick s) = (tick s)\<lparr>timeLeft := timeLeft (tick s) - int n\<rparr>"
    by (rule Suc.IH) (use Suc.prems step in simp_all)
  with step show ?case by (simp add: algebra_simps)
qed

lemma ticks_add: "ticks (m + n) s = ticks n (ticks m s)"
  by (induction m arbitrary: s) simp_all

lemma ticks_1500:
  "ticks 1500 (start initial) = \<lparr>timeLeft = 0, phase = Work, cycle = 1, running = True\<rparr>"
  using ticks_countdown [of "start initial" 1500]
  by (simp add: start_def initial_def workDuration_def)

lemma ticks_1501:
  "ticks 1501 (start initial) = \<lparr>timeLeft = 300, phase = ShortBreak, cycle = 1, running = True\<rparr>"
proof -
  have "ticks (1500 + 1) (start initial) = ticks 1 (ticks 1500 (start initial))"
    by (rule ticks_add)
  then show ?thesis
    by (simp add: ticks_1500 tick_def js_rem_def shortBreak_def)
qed

text \<open>
  C4. The specification has the 1500th tick from the started initial state enter the short
  break. The callback only counts down while \<open>prev > 0\<close>, so 1500 ticks bring the clock to
  zero, still in the work phase of cycle 1, and it is the 1501st tick that enters the short
  break with 300 seconds, the cycle number still 1.
\<close>

theorem first_work_phase:
  "ticks 1500 (start initial) = \<lparr>timeLeft = 0, phase = Work, cycle = 1, running = True\<rparr>
   \<and> ticks 1501 (start initial)
       = \<lparr>timeLeft = 300, phase = ShortBreak, cycle = 1, running = True\<rparr>"
  by (simp only: ticks_1500 ticks_1501)

theorem first_work_phase_counterexample:
  "\<not> (phase (ticks 1500 (start initial)) = ShortBreak
       \<and> timeLeft (ticks 1500 (start initial)) = 300
       \<and> cycle (ticks 1500 (start initial)) = 1)"
  by (simp add: ticks_1500)

subsection \<open>The log of a run\<close>

lemma transitions_countdown:
  "running s \<Longrightarrow> int k \<le> timeLeft s \<Longrightarrow>
     transitions i (k + n) s = transitions (i + k) n (s\<lparr>timeLeft := timeLeft s - int k\<rparr>)"
proof (induction k arbitrary: s i)
  case 0
  then show ?case by simp
next
  case (Suc k)
  from Suc.prems have step: "tick s = s\<lparr>timeLeft := timeLeft s - 1\<rparr>"
    by (simp add: tick_def)
  have "transitions (Suc i) (k + n) (tick s)
      = transitions (Suc i + k) n ((tick s)\<lparr>timeLeft := timeLeft (tick s) - int k\<rparr>)"
    by (rule Suc.IH) (use Suc.prems step in simp_all)
  with step show ?case by (simp add: algebra_simps)
qed

lemma tick_at_zero_changes_phase:
  "running s \<Longrightarrow> timeLeft s = 0 \<Longrightarrow> phase (tick s) \<noteq> phase s"
  by (simp add: tick_def)

text \<open>
  A phase entered with \<open>k\<close> seconds on the clock is silent for \<open>k\<close> ticks and logs its one
  entry at tick \<open>k + 1\<close>.
\<close>

lemma transitions_phase:
  assumes "running s" and "timeLeft s = int k"
  shows "transitions i (k + 1 + n) s =
    (i + k + 1, phase s, cycle s,
       phase (tick (s\<lparr>timeLeft := 0\<rparr>)), cycle (tick (s\<lparr>timeLeft := 0\<rparr>)))
      # transitions (i + k + 1) n (tick (s\<lparr>timeLeft := 0\<rparr>))"
proof -
  let ?z = "s\<lparr>timeLeft := 0\<rparr>"
  have "transitions i (k + (1 + n)) s
      = transitions (i + k) (1 + n) (s\<lparr>timeLeft := timeLeft s - int k\<rparr>)"
    using assms by (intro transitions_countdown) simp_all
  then have "transitions i (k + 1 + n) s = transitions (i + k) (Suc n) ?z"
    using assms by (simp add: add.assoc)
  moreover have "phase (tick ?z) \<noteq> phase ?z"
    using assms by (intro tick_at_zero_changes_phase) simp_all
  ultimately show ?thesis by simp
qed

text \<open>
  C5. The first 7808 ticks of a started timer change the phase or the cycle number exactly
  eight times. The phases left are work, short break, work, short break, work, short break,
  work, long break; the cycle number just before each of the first seven changes is
  1, 1, 2, 2, 3, 3, 4; the fourth work phase ends in the long break, its cycle number 4
  leaving remainder 0; and cycle number 5 first appears when the long break ends in the
  work phase.
\<close>

theorem full_cycle:
  "transitions 0 7808 (start initial) =
     [(1501, Work, 1, ShortBreak, 1), (1802, ShortBreak, 1, Work, 2),
      (3303, Work, 2, ShortBreak, 2), (3604, ShortBreak, 2, Work, 3),
      (5105, Work, 3, ShortBreak, 3), (5406, ShortBreak, 3, Work, 4),
      (6907, Work, 4, LongBreak, 4), (7808, LongBreak, 4, Work, 5)]
   \<and> map (\<lambda>(i, p, c, p', c'). p) (transitions 0 7808 (start initial)) =
       [Work, ShortBreak, Work, ShortBreak, Work, ShortBreak, Work, LongBreak]
   \<and> map (\<lambda>(i, p, c, p', c'). c) (take 7 (transitions 0 7808 (start initial))) =
       [1, 1, 2, 2, 3, 3, 4]
   \<and> js_rem 4 4 = 0"
proof -
  note ev = tick_def js_rem_def workDuration_def shortBreak_def longBreak_def
  let ?W = "\<lambda>c. \<lparr>timeLeft = 1500, phase = Work, cycle = c, running = True\<rparr>"
  let ?S = "\<lambda>c. \<lparr>timeLeft = 300, phase = ShortBreak, cycle = c, running = True\<rparr>"
  let ?L = "\<lambda>c. \<lparr>timeLeft = 900, phase = LongBreak, cycle = c, running = True\<rparr>"
  have s0: "start initial = ?W 1"
    by (simp add: start_def initial_def workDuration_def)
  have 1: "transitions 0 7808 (?W 1)
      = (1501, Work, 1, ShortBreak, 1) # transitions 1501 6307 (?S 1)"
    using transitions_phase [of "?W 1" 1500 0 6307] by (simp add: ev)
  have 2: "transitions 1501 6307 (?S 1)
      = (1802, ShortBreak, 1, Work, 2) # transitions 1802 6006 (?W 2)"
    using transitions_phase [of "?S 1" 300 1501 6006] by (simp add: ev)
  have 3: "transitions 1802 6006 (?W 2)
      = (3303, Work, 2, ShortBreak, 2) # transitions 3303 4505 (?S 2)"
    using transitions_phase [of "?W 2" 1500 1802 4505] by (simp add: ev)
  have 4: "transitions 3303 4505 (?S 2)
      = (3604, ShortBreak, 2, Work, 3) # transitions 3604 4204 (?W 3)"
    using transitions_phase [of "?S 2" 300 3303 4204] by (simp add: ev)
  have 5: "transitions 3604 4204 (?W 3)
      = (5105, Work, 3, ShortBreak, 3) # transitions 5105 2703 (?S 3)"
    using transitions_phase [of "?W 3" 1500 3604 2703] by (simp add: ev)
  have 6: "transitions 5105 2703 (?S 3)
      = (5406, ShortBreak, 3, Work, 4) # transitions 5406 2402 (?W 4)"
    using transitions_phase [of "?S 3" 300 5105 2402] by (simp add: ev)
  have 7: "transitions 5406 2402 (?W 4)
      = (6907, Work, 4, LongBreak, 4) # transitions 6907 901 (?L 4)"
    using transitions_phase [of "?W 4" 1500 5406 901] by (simp add: ev)
  have 8: "transitions 6907 901 (?L 4)
      = (7808, LongBreak, 4, Work, 5) # transitions 7808 0 (?W 5)"
    using transitions_phase [of "?L 4" 900 6907 0] by (simp add: ev)
  have "js_rem 4 4 = 0"
    by (simp add: js_rem_def)
  then show ?thesis
    unfolding s0 1 2 3 4 5 6 7 8 by simp
qed

subsection \<open>The cycle number\<close>

lemma cycle_tick:
  "cycle (tick s) =
     (if (phase s = ShortBreak \<or> phase s = LongBreak) \<and> phase (tick s) = Work
      then cycle s + 1 else cycle s)"
  by (cases "phase s") (simp_all add: tick_def)

lemma cycle_ticks_le: "cycle s \<le> cycle (ticks n s)"
proof (induction n arbitrary: s)
  case 0
  show ?case by simp
next
  case (Suc n)
  have "cycle s \<le> cycle (tick s)" by (simp add: cycle_tick)
  also have "\<dots> \<le> cycle (ticks n (tick s))" by (rule Suc.IH)
  finally show ?case by simp
qed

text \<open>
  C6. Along any run of ticks the cycle number never goes down: after \<open>m + k\<close> ticks it is
  at least what it was after \<open>m\<close>. A single tick adds exactly one when it takes the phase
  from a short or long break to work, and leaves the cycle number alone otherwise.
\<close>

theorem cycle_monotone:
  "cycle (ticks m s) \<le> cycle (ticks (m + k) s)
   \<and> cycle (tick s) =
       (if (phase s = ShortBreak \<or> phase s = LongBreak) \<and> phase (tick s) = Work
        then cycle s + 1 else cycle s)"
  using cycle_ticks_le [of "ticks m s" k] cycle_tick [of s]
  by (simp only: ticks_add)

subsection \<open>The invariant\<close>

lemma session_inv_initial: "session_inv initial"
  by (simp add: session_inv_def initial_def workDuration_def)

lemma session_inv_tick: "session_inv s \<Longrightarrow> session_inv (tick s)"
  by (cases "phase s")
    (auto simp: session_inv_def tick_def workDuration_def shortBreak_def longBreak_def)

lemma session_inv_apply: "session_inv s \<Longrightarrow> session_inv (apply_command c s)"
proof (cases c)
  case Tick
  assume "session_inv s"
  with Tick show ?thesis by (simp add: session_inv_tick)
qed (simp_all add: session_inv_def start_def pause_def reset_def workDuration_def)

lemma session_inv_exec: "session_inv s \<Longrightarrow> session_inv (exec cs s)"
  by (induction cs arbitrary: s) (simp_all add: session_inv_apply)

text \<open>
  C2. After any sequence of start, pause, reset and tick from the initial state, the time
  left is between 0 and the duration of the current phase (1500 for work, 300 for the short
  break, 900 for the long break) and the cycle number is at least 1.
\<close>

theorem reachable_invariant:
  "0 \<le> timeLeft (exec cs initial)
   \<and> timeLeft (exec cs initial) \<le> phaseDuration (phase (exec cs initial))
   \<and> 1 \<le> cycle (exec cs initial)"
  using session_inv_exec [OF session_inv_initial, of cs] by (simp add: session_inv_def)

subsection \<open>The clock face\<close>

lemma js_rem_nonneg: "0 \<le> a \<Longrightarrow> 0 < b \<Longrightarrow> js_rem a b = a mod b"
  by (cases "a = 0") (simp_all add: js_rem_def)

lemma js_String_nonneg: "0 \<le> n \<Longrightarrow> js_String n = decimal (nat n)"
  by (simp add: js_String_def)

lemma decimal_small: "n < 10 \<Longrightarrow> decimal n = [digit_char n]"
  by (simp add: decimal.simps)

lemma decimal_large: "10 \<le> n \<Longrightarrow> decimal n = decimal (n div 10) @ [digit_char (n mod 10)]"
  by (subst decimal.simps) simp

lemma length_decimal_pos: "1 \<le> length (decimal n)"
  by (cases "n < 10") (simp_all add: decimal_small decimal_large)

lemma length_decimal_large: "10 \<le> n \<Longrightarrow> 2 \<le> length (decimal n)"
  using length_decimal_pos [of "n div 10"] by (simp add: decimal_large)

lemma length_decimal_two: "10 \<le> n \<Longrightarrow> n < 100 \<Longrightarrow> length (decimal n) = 2"
  by (simp add: decimal_large decimal_small)

lemma padStart_decimal: "padStart 2 ''0'' (decimal n) = two_digits n"
proof (cases "n < 10")
  case True
  then show ?thesis
    by (simp add: padStart_def two_digits_def decimal_small)
next
  case False
  then have "2 \<le> length (decimal n)"
    by (simp add: length_decimal_large)
  with False show ?thesis
    by (simp add: padStart_def two_digits_def)
qed

lemma display_nonneg:
  assumes "0 \<le> timeLeft s"
  shows "display s = display_spec (timeLeft s)"
proof -
  have "0 \<le> timeLeft s div 60" and "0 \<le> timeLeft s mod 60"
    using assms by simp_all
  then have "js_String (timeLeft s div 60) = decimal (nat (timeLeft s div 60))"
    and "js_String (timeLeft s mod 60) = decimal (nat (timeLeft s mod 60))"
    by (simp_all only: js_String_nonneg)
  then show ?thesis
    using assms
    by (simp add: display_def display_spec_def js_rem_nonneg padStart_decimal)
qed

lemma digit_value_digit_char: "d < 10 \<Longrightarrow> digit_value (digit_char d) = d"
  by (auto simp: eval_nat_numeral less_Suc_eq digit_char_def digit_value_def)

lemma digits_value_snoc: "digits_value (str @ [c]) = 10 * digits_value str + digit_value c"
  by (simp add: digits_value_def)

lemma digits_value_decimal: "digits_value (decimal n) = n"
proof (induction n rule: decimal.induct)
  case (1 n)
  show ?case
  proof (cases "n < 10")
    case True
    then show ?thesis
      by (simp add: decimal_small digits_value_def digit_value_digit_char)
  next
    case False
    with "1.IH" have "digits_value (decimal (n div 10)) = n div 10"
      by simp
    with False show ?thesis
      by (simp add: decimal_large digits_value_snoc digit_value_digit_char)
  qed
qed

lemma digits_value_two_digits: "digits_value (two_digits n) = n"
proof (cases "n < 10")
  case True
  then have "digits_value [CHR ''0'', digit_char n] = n"
    by (simp add: digits_value_def digit_value_digit_char) (simp add: digit_value_def)
  with True show ?thesis by (simp add: two_digits_def)
next
  case False
  then show ?thesis by (simp add: two_digits_def digits_value_decimal)
qed

lemma length_two_digits: "n < 100 \<Longrightarrow> length (two_digits n) = 2"
  by (cases "n < 10") (simp_all add: two_digits_def length_decimal_two)

text \<open>
  C9. The clock face is computed from the state alone and is a pair of strings. For a time
  left that is not negative they are the minutes \<open>floor (t / 60)\<close> and the seconds
  \<open>t mod 60\<close>, each written with two digits and a leading zero where needed, and they read
  back as those two numbers. 65 seconds show as 01 and 05, zero seconds as 00 and 00.
\<close>

theorem display_two_digits:
  assumes "0 \<le> timeLeft s"
  shows "display s = display_spec (timeLeft s)
    \<and> digits_value (fst (display s)) = nat (timeLeft s div 60)
    \<and> digits_value (snd (display s)) = nat (timeLeft s mod 60)
    \<and> (timeLeft s = 65 \<longrightarrow> display s = (''01'', ''05''))
    \<and> (timeLeft s = 0 \<longrightarrow> display s = (''00'', ''00''))"
proof -
  have d: "display s = display_spec (timeLeft s)"
    using assms by (rule display_nonneg)
  have "display_spec 65 = (''01'', ''05'')" and "display_spec 0 = (''00'', ''00'')"
    by (simp_all add: display_spec_def two_digits_def digit_char_def)
  with d show ?thesis
    by (simp add: display_spec_def digits_value_two_digits)
qed

theorem display_two_digits_witness:
  "display \<lparr>timeLeft = 65, phase = Work, cycle = 1, running = False\<rparr> = (''01'', ''05'')
   \<and> display \<lparr>timeLeft = 0, phase = ShortBreak, cycle = 2, running = True\<rparr> = (''00'', ''00'')
   \<and> display \<lparr>timeLeft = 1500, phase = Work, cycle = 1, running = True\<rparr> = (''25'', ''00'')"
  using display_two_digits [of "\<lparr>timeLeft = 65, phase = Work, cycle = 1, running = False\<rparr>"]
    display_two_digits [of "\<lparr>timeLeft = 0, phase = ShortBreak, cycle = 2, running = True\<rparr>"]
    display_two_digits [of "\<lparr>timeLeft = 1500, phase = Work, cycle = 1, running = True\<rparr>"]
  by (simp add: display_spec_def two_digits_def digit_char_def decimal.simps)

lemma phaseDuration_le: "phaseDuration p \<le> 1500"
  by (cases p) simp_all

lemma display_length_inv:
  assumes "session_inv s"
  shows "length (fst (display s)) = 2 \<and> length (snd (display s)) = 2
    \<and> timeLeft s \<le> 1500 \<and> timeLeft s div 60 \<le> 25 \<and> js_rem (timeLeft s) 60 \<le> 59"
proof -
  from assms have t: "0 \<le> timeLeft s" "timeLeft s \<le> 1500"
    using phaseDuration_le [of "phase s"] by (simp_all add: session_inv_def)
  then have m: "nat (timeLeft s div 60) < 100" "timeLeft s div 60 \<le> 25"
    by simp_all
  have r: "nat (timeLeft s mod 60) < 100" "js_rem (timeLeft s) 60 \<le> 59"
    using t by (simp_all add: js_rem_nonneg)
  have "display s = display_spec (timeLeft s)"
    using t(1) by (rule display_nonneg)
  with t m r show ?thesis
    by (simp add: display_spec_def length_two_digits)
qed

text \<open>
  Outside the reachable states the padding does not cut anything off: 6000 seconds would
  show three digits of minutes.
\<close>

lemma display_not_truncated:
  "display \<lparr>timeLeft = 6000, phase = Work, cycle = 1, running = False\<rparr> = (''100'', ''00'')"
  by (simp add: display_def padStart_def js_String_def js_rem_def decimal.simps digit_char_def)

text \<open>
  C10. After any sequence of start, pause, reset and tick from the initial state both
  strings of the clock face have exactly two characters: the time left is at most 1500, so
  the minutes are at most 25 and the seconds at most 59.
\<close>

theorem display_length:
  "length (fst (display (exec cs initial))) = 2
   \<and> length (snd (display (exec cs initial))) = 2
   \<and> timeLeft (exec cs initial) \<le> 1500
   \<and> timeLeft (exec cs initial) div 60 \<le> 25
   \<and> js_rem (timeLeft (exec cs initial)) 60 \<le> 59"
  by (rule display_length_inv) (rule session_inv_exec [OF session_inv_initial])

end
